theory Spec2Isabelle
  imports Main "HOL-Library.Word"
begin

unbundle bit_operations_syntax

section \<open>JavaScript strings\<close>

text \<open>
  A JavaScript string is a sequence of 16-bit code units. The literals of the source are
  ASCII; \<open>js\<close> turns such a literal into its code units. The empty string is the only
  falsy string, so \<open>if (s)\<close> is \<open>s \<noteq> []\<close> and \<open>a || b\<close> is
  \<open>if a \<noteq> [] then a else b\<close>.
\<close>

type_synonym code_unit = "16 word"
type_synonym jsstring = "code_unit list"

definition js :: "string \<Rightarrow> jsstring" where
  "js s = map (\<lambda>c. of_nat (of_char c)) s"

text \<open>
  \<open>String.prototype.trim\<close> removes the code points WhiteSpace and LineTerminator of
  ECMAScript from both ends: TAB, LF, VT, FF, CR, SPACE, NBSP, U+1680, U+2000 to U+200A,
  U+2028, U+2029, U+202F, U+205F, U+3000 and U+FEFF. All of them are single code units.
\<close>

definition is_ws :: "code_unit \<Rightarrow> bool" where
  "is_ws c \<longleftrightarrow>
     c = 0x9 \<or> c = 0xA \<or> c = 0xB \<or> c = 0xC \<or> c = 0xD \<or> c = 0x20 \<or> c = 0xA0 \<or>
     c = 0x1680 \<or> (0x2000 \<le> c \<and> c \<le> 0x200A) \<or> c = 0x2028 \<or> c = 0x2029 \<or>
     c = 0x202F \<or> c = 0x205F \<or> c = 0x3000 \<or> c = 0xFEFF"

definition trim :: "jsstring \<Rightarrow> jsstring" where
  "trim s = rev (dropWhile is_ws (rev (dropWhile is_ws s)))"

text \<open>\<open>s.includes(sub)\<close>: \<open>sub\<close> occurs in \<open>s\<close> as a contiguous run.\<close>

fun includes_str :: "jsstring \<Rightarrow> jsstring \<Rightarrow> bool" where
  "includes_str [] sub = (sub = [])"
| "includes_str (c # cs) sub = (take (length sub) (c # cs) = sub \<or> includes_str cs sub)"

text \<open>\<open>xs[i]\<close> on an array: \<open>undefined\<close> (here \<open>None\<close>) out of range.\<close>

definition at_index :: "'a list \<Rightarrow> nat \<Rightarrow> 'a option" where
  "at_index xs i = (if i < length xs then Some (xs ! i) else None)"

section \<open>The session identifier: generateUUID\<close>

text \<open>
  \<open>(Math.random() * 16) | 0\<close> is an integer from 0 to 15, since \<open>Math.random()\<close> lies
  in [0, 1): one draw is a 4-bit value, and the source of randomness is the sequence of
  draws, \<open>rnd k\<close> being the draw of the \<open>k\<close>-th call of the replacer. On these values
  \<open>(r & 0x3) | 0x8\<close> is the same on 4 bits as on the 32 bits of JavaScript.
  \<open>v.toString(16)\<close> of a value below 16 is its one lower-case hexadecimal digit.
\<close>

definition hex_digit :: "nat \<Rightarrow> code_unit" where
  "hex_digit n = (if n < 10 then of_nat (48 + n) else of_nat (87 + n))"

definition toString16 :: "4 word \<Rightarrow> jsstring" where
  "toString16 v = [hex_digit (unat v)]"

definition replacer :: "4 word \<Rightarrow> code_unit \<Rightarrow> jsstring" where
  "replacer r c = (let v = (if c = 0x78 then r else (r AND 0x3) OR 0x8) in toString16 v)"

text \<open>
  \<open>template.replace(/[xy]/g, f)\<close>: every \<open>x\<close> (0x78) and \<open>y\<close> (0x79), from left to
  right, is replaced by what the callback returns for it; other code units are kept.
\<close>

fun replace_xy :: "(nat \<Rightarrow> 4 word) \<Rightarrow> nat \<Rightarrow> jsstring \<Rightarrow> jsstring" where
  "replace_xy rnd k [] = []"
| "replace_xy rnd k (c # cs) =
     (if c = 0x78 \<or> c = 0x79 then replacer (rnd k) c @ replace_xy rnd (k + 1) cs
      else c # replace_xy rnd k cs)"

definition generateUUID :: "(nat \<Rightarrow> 4 word) \<Rightarrow> jsstring" where
  "generateUUID rnd = replace_xy rnd 0 (js ''xxxxxxxx-xxxx-4xxx-yxxx-xxxxxxxxxxxx'')"

text \<open>
  The canonical layout, stated on its own: 36 code units, groups of 8, 4, 4, 4 and 12
  lower-case hexadecimal digits separated by hyphens (0x2D), the first digit of the third
  group being \<open>4\<close> and the first digit of the fourth group one of \<open>8\<close>, \<open>9\<close>, \<open>a\<close>,
  \<open>b\<close>.
\<close>

definition is_hex :: "code_unit \<Rightarrow> bool" where
  "is_hex c \<longleftrightarrow> (0x30 \<le> c \<and> c \<le> 0x39) \<or> (0x61 \<le> c \<and> c \<le> 0x66)"

definition hex_group :: "nat \<Rightarrow> nat \<Rightarrow> jsstring \<Rightarrow> bool" where
  "hex_group start n u = list_all is_hex (take n (drop start u))"

definition canonical_uuid_v4 :: "jsstring \<Rightarrow> bool" where
  "canonical_uuid_v4 u \<longleftrightarrow>
     length u = 36 \<and>
     hex_group 0 8 u \<and> u ! 8 = 0x2D \<and>
     hex_group 9 4 u \<and> u ! 13 = 0x2D \<and>
     u ! 14 = 0x34 \<and> hex_group 15 3 u \<and> u ! 18 = 0x2D \<and>
     (u ! 19 = 0x38 \<or> u ! 19 = 0x39 \<or> u ! 19 = 0x61 \<or> u ! 19 = 0x62) \<and>
     hex_group 20 3 u \<and> u ! 23 = 0x2D \<and>
     hex_group 24 12 u"

section \<open>Notifications\<close>

text \<open>
  A call \<open>toast({title, description, variant})\<close>: the description may be left out, and
  \<open>destructive\<close> says that the variant is \<open>"destructive"\<close> (an error notice).
\<close>

datatype toast = Toast (title: jsstring) (description: "jsstring option") (destructive: bool)

section \<open>The upload step: ResumeUpload\<close>

text \<open>
  A \<open>File\<close> as far as the component reads it: its name and its declared type
  (\<open>None\<close> when the type is absent).
\<close>

record js_file =
  file_name :: jsstring
  file_type :: "jsstring option"

record upload_state =
  resumeFile :: "js_file option"
  resumeContent :: jsstring
  isProcessing :: bool
  sessionId :: jsstring

datatype upload_effect =
    UploadToast toast
  | ExtractCall jsstring js_file
  | SubmitOnNext jsstring jsstring

text \<open>
  How \<open>await uploadResumeExtract(id, file)\<close> ends: it resolves, and \<open>Resolved n\<close>
  carries the text that the template literals print for \<open>result.chunks_indexed\<close>, or
  something in the \<open>try\<close> block throws.
\<close>

datatype extract_outcome = Resolved jsstring | Rejected

definition upload_init :: upload_state where
  "upload_init = \<lparr>resumeFile = None, resumeContent = [], isProcessing = False, sessionId = []\<rparr>"

definition is_pdf :: "js_file \<Rightarrow> bool" where
  "is_pdf f = (case file_type f of None \<Rightarrow> False
               | Some t \<Rightarrow> t \<noteq> [] \<and> includes_str t (js ''pdf''))"

text \<open>
  \<open>handleFileUpload\<close> up to its \<open>await\<close>: the type check, then the stored file, the
  processing flag and the session identifier are set and the extraction request is sent.
  The third component is the identifier the rest of the handler goes on with; \<open>None\<close>
  when the handler has returned.
\<close>

definition handleFileUpload_begin ::
  "(nat \<Rightarrow> 4 word) \<Rightarrow> upload_state \<Rightarrow> js_file \<Rightarrow> upload_state \<times> upload_effect list \<times> jsstring option" where
  "handleFileUpload_begin rnd s f =
     (if \<not> is_pdf f
      then (s, [UploadToast (Toast (js ''Invalid file type'') (Some (js ''Please upload a PDF file'')) True)], None)
      else let s1 = s\<lparr>resumeFile := Some f, isProcessing := True\<rparr>;
               ident = generateUUID rnd
           in (s1\<lparr>sessionId := ident\<rparr>, [ExtractCall ident f], Some ident))"

text \<open>The rest of the handler, once the extraction call has ended.\<close>

definition handleFileUpload_settle ::
  "jsstring \<Rightarrow> extract_outcome \<Rightarrow> upload_state \<Rightarrow> upload_state \<times> upload_effect list" where
  "handleFileUpload_settle ident outcome s =
     (case outcome of
        Resolved n \<Rightarrow>
          (s\<lparr>resumeContent := js ''Indexed '' @ n @ js '' chunks for session '' @ ident,
             isProcessing := False\<rparr>,
           [UploadToast (Toast (js ''Resume processed successfully'')
                               (Some (js ''Analyzed and indexed ('' @ n @ js '' chunks)'')) False)])
      | Rejected \<Rightarrow>
          (s\<lparr>isProcessing := False\<rparr>,
           [UploadToast (Toast (js ''Error processing resume'') (Some (js ''Please try uploading again'')) True)]))"

definition handleFileUpload ::
  "(nat \<Rightarrow> 4 word) \<Rightarrow> extract_outcome \<Rightarrow> upload_state \<Rightarrow> js_file \<Rightarrow> upload_state \<times> upload_effect list" where
  "handleFileUpload rnd outcome s f =
     (case handleFileUpload_begin rnd s f of
        (s1, fx1, None) \<Rightarrow> (s1, fx1)
      | (s1, fx1, Some ident) \<Rightarrow>
          (case handleFileUpload_settle ident outcome s1 of (s2, fx2) \<Rightarrow> (s2, fx1 @ fx2)))"

definition handleSubmit :: "upload_state \<Rightarrow> upload_effect list" where
  "handleSubmit s =
     (if resumeContent s = []
      then [UploadToast (Toast (js ''Resume required'') (Some (js ''Please upload your resume'')) True)]
      else [SubmitOnNext (resumeContent s) (sessionId s)])"

definition network_calls :: "upload_effect list \<Rightarrow> upload_effect list" where
  "network_calls fx = filter (\<lambda>e. case e of ExtractCall _ _ \<Rightarrow> True | _ \<Rightarrow> False) fx"

section \<open>The interview step: TechnicalInterview\<close>

datatype qtype = Role | Resume

text \<open>
  An entry of the answer sequence. \<open>question\<close> is \<open>questions[currentQuestionIndex]\<close>,
  which is \<open>undefined\<close> (\<open>None\<close>) when the index is out of range; \<open>qtype\<close> is the field
  \<open>type\<close>, whose values are \<open>'role'\<close> and \<open>'resume'\<close>.
\<close>

record answer =
  question :: "jsstring option"
  answer :: jsstring
  qtype :: qtype

text \<open>
  The state of the component: the \<open>useState\<close> cells the handlers read and write, and the
  \<open>useRef\<close> cells, of which only whether they hold an object matters
  (\<open>recognitionInstance\<close>, \<open>mediaRecorder\<close>, \<open>ws\<close>) or their flag (\<open>isUsingWs\<close>).
  A handler runs on the state of the latest render.
\<close>

record interview_state =
  currentQuestionIndex :: nat
  answers :: "answer list"
  currentAnswer :: jsstring
  isRecording :: bool
  answeredOnce :: "nat set"
  transcript :: jsstring
  interim :: jsstring
  questions :: "jsstring list"
  recognitionInstance :: bool
  mediaRecorder :: bool
  ws :: bool
  isUsingWs :: bool

text \<open>What the page gives: whether a speech recognition constructor exists, and
  \<open>isSecureContextOk\<close>.\<close>

record environment =
  recognitionCtor :: bool
  isSecureContextOk :: bool

datatype effect =
    ShowToast toast
  | CallOnNext "answer list"
  | RecognitionStop
  | RecognitionStart
  | GetUserMedia
  | SocketConnect
  | RecorderStart
  | RecorderStop
  | SocketSendEnd
  | SocketClose

definition COUNT_ROLE :: nat where
  "COUNT_ROLE = 7"

definition interview_init :: "jsstring list \<Rightarrow> interview_state" where
  "interview_init qs =
     \<lparr>currentQuestionIndex = 0, answers = [], currentAnswer = [], isRecording = False,
      answeredOnce = {}, transcript = [], interim = [], questions = qs,
      recognitionInstance = False, mediaRecorder = False, ws = False, isUsingWs = False\<rparr>"

subsection \<open>Native recognition\<close>

text \<open>
  A result of the engine: whether it is final, and the transcripts of its alternatives
  (\<open>res[0].transcript\<close> is the first). An event carries the results and the index from
  which they are new.
\<close>

record sr_result =
  isFinal :: bool
  alternatives :: "jsstring list"

record sr_event =
  resultIndex :: nat
  results :: "sr_result list"

text \<open>
  The loop of \<open>rec.onresult\<close> over the results from \<open>resultIndex\<close> on, with its two
  accumulators. Reading \<open>res[0].transcript\<close> of a result without alternatives throws a
  TypeError, which is \<open>None\<close>.
\<close>

fun collect :: "sr_result list \<Rightarrow> jsstring \<Rightarrow> jsstring \<Rightarrow> (jsstring \<times> jsstring) option" where
  "collect [] finalText interimText = Some (finalText, interimText)"
| "collect (res # rs) finalText interimText =
     (case alternatives res of
        [] \<Rightarrow> None
      | t # _ \<Rightarrow> if isFinal res then collect rs (finalText @ t) interimText
                 else collect rs finalText (interimText @ t))"

text \<open>An exception in the loop leaves the handler before any state is set.\<close>

definition rec_onresult :: "sr_event \<Rightarrow> interview_state \<Rightarrow> interview_state" where
  "rec_onresult ev s =
     (case collect (drop (resultIndex ev) (results ev)) [] [] of
        None \<Rightarrow> s
      | Some (finalText, interimText) \<Rightarrow>
          (let s1 = (if finalText \<noteq> []
                     then s\<lparr>transcript :=
                            (if transcript s \<noteq> [] then transcript s @ js '' '' else []) @ trim finalText\<rparr>
                     else s)
           in s1\<lparr>interim := trim interimText\<rparr>))"

definition rec_onerror :: "jsstring option \<Rightarrow> interview_state \<Rightarrow> interview_state \<times> effect list" where
  "rec_onerror error s =
     (let err = (case error of None \<Rightarrow> js ''unknown''
                 | Some e \<Rightarrow> if e \<noteq> [] then e else js ''unknown'');
          description =
            (if err = js ''not-allowed'' then js ''Microphone access denied. Please allow mic permissions.''
             else if err = js ''no-speech'' then js ''No speech detected. Try speaking closer to the mic.''
             else if err = js ''audio-capture'' then js ''No microphone found. Check your input device.''
             else js ''Please retry or refresh the page.'')
      in (s\<lparr>isRecording := False\<rparr>,
          [ShowToast (Toast (js ''Speech recognition error: '' @ err) (Some description) True)]))"

definition rec_onend :: "interview_state \<Rightarrow> interview_state" where
  "rec_onend s = s\<lparr>isRecording := False\<rparr>"

subsection \<open>Socket relay\<close>

text \<open>
  \<open>startWSRecorder\<close> up to its \<open>await\<close>: nothing when the relay is in use, otherwise the
  microphone is requested.
\<close>

definition startWSRecorder :: "interview_state \<Rightarrow> interview_state \<times> effect list" where
  "startWSRecorder s = (if isUsingWs s then (s, []) else (s, [GetUserMedia]))"

text \<open>
  How the rest of \<open>startWSRecorder\<close> goes: the microphone is refused, or the
  \<open>MediaRecorder\<close> constructor throws, or the \<open>WebSocket\<close> constructor throws (the
  recorder is stored by then), or both objects are made and stored. Every exception ends
  in the \<open>catch\<close> with its notice.
\<close>

datatype media_outcome = MicrophoneRefused | RecorderCtorThrows | SocketCtorThrows | MediaReady

definition startWSRecorder_resume :: "media_outcome \<Rightarrow> interview_state \<Rightarrow> interview_state \<times> effect list" where
  "startWSRecorder_resume outcome s =
     (let failed = ShowToast (Toast (js ''Failed to start recording'')
                                    (Some (js ''Allow microphone access and try again.'')) True)
      in case outcome of
           MicrophoneRefused \<Rightarrow> (s, [failed])
         | RecorderCtorThrows \<Rightarrow> (s, [failed])
         | SocketCtorThrows \<Rightarrow> (s\<lparr>mediaRecorder := True\<rparr>, [failed])
         | MediaReady \<Rightarrow> (s\<lparr>mediaRecorder := True, ws := True\<rparr>, [SocketConnect]))"

text \<open>The connection is open: the recorder is started (\<open>mr.start(1000)\<close>, taken to
  return) and the recording state begins.\<close>

definition ws_onopen :: "interview_state \<Rightarrow> interview_state \<times> effect list" where
  "ws_onopen s =
     (s\<lparr>isRecording := True, isUsingWs := True\<rparr>,
      [RecorderStart, ShowToast (Toast (js ''Recording started'') (Some (js ''Speak your answer'')) False)])"

text \<open>The \<open>data\<close> of a message of the connection, whose \<open>binaryType\<close> is
  \<open>"arraybuffer"\<close>: a string or a buffer of bytes.\<close>

datatype ws_data = TextData jsstring | BinaryData "8 word list"

definition ws_onmessage :: "ws_data \<Rightarrow> interview_state \<Rightarrow> interview_state" where
  "ws_onmessage data s =
     (let txt = (case data of TextData t \<Rightarrow> t | BinaryData _ \<Rightarrow> [])
      in s\<lparr>transcript := txt, isRecording := False, isUsingWs := False\<rparr>)"

definition ws_onclose :: "interview_state \<Rightarrow> interview_state" where
  "ws_onclose s = s\<lparr>isRecording := False, isUsingWs := False\<rparr>"

definition mr_onerror :: "interview_state \<Rightarrow> interview_state \<times> effect list" where
  "mr_onerror s =
     (s\<lparr>isRecording := False\<rparr>,
      [ShowToast (Toast (js ''Recording failed'') (Some (js ''Media recorder error'')) True)])"

definition stopWSRecorder :: "interview_state \<Rightarrow> interview_state \<times> effect list" where
  "stopWSRecorder s =
     (s\<lparr>mediaRecorder := False, ws := False, isUsingWs := False, isRecording := False,
        answeredOnce := insert (currentQuestionIndex s) (answeredOnce s)\<rparr>,
      (if mediaRecorder s then [RecorderStop] else []) @
      (if ws s then [SocketSendEnd, SocketClose] else []) @
      [ShowToast (Toast (js ''Recording stopped'') None False)])"

subsection \<open>Starting and stopping\<close>

text \<open>
  \<open>startSTT\<close>. \<open>start_ok\<close> says whether \<open>rec.start()\<close> returns (otherwise it throws and
  the \<open>catch\<close> gives its notice). The constructor of the engine is taken to return an
  object.
\<close>

definition startSTT :: "environment \<Rightarrow> bool \<Rightarrow> interview_state \<Rightarrow> interview_state \<times> effect list" where
  "startSTT env start_ok s =
     (if \<not> recognitionCtor env then
        (if \<not> isSecureContextOk env
         then (s, [ShowToast (Toast (js ''Insecure context'')
                                    (Some (js ''Speech recording requires HTTPS.'')) True)])
         else startWSRecorder s)
      else if \<not> isSecureContextOk env
      then (s, [ShowToast (Toast (js ''Insecure context'')
                                 (Some (js ''Speech recognition requires HTTPS.'')) True)])
      else
        (let fx1 = (if recognitionInstance s then [RecognitionStop] else []);
             s1 = s\<lparr>recognitionInstance := True, transcript := [], interim := []\<rparr>
         in if start_ok
            then (s1\<lparr>isRecording := True\<rparr>,
                  fx1 @ [RecognitionStart,
                         ShowToast (Toast (js ''Recording started'') (Some (js ''Speak your answer'')) False)])
            else (s1, fx1 @ [RecognitionStart,
                             ShowToast (Toast (js ''Failed to start STT'')
                                              (Some (js ''Try again or refresh.'')) True)])))"

definition stopSTT :: "interview_state \<Rightarrow> interview_state \<times> effect list" where
  "stopSTT s =
     (if isUsingWs s then stopWSRecorder s
      else (s\<lparr>isRecording := False,
               answeredOnce := insert (currentQuestionIndex s) (answeredOnce s)\<rparr>,
            (if recognitionInstance s then [RecognitionStop] else []) @
            [ShowToast (Toast (js ''Recording stopped'') None False)]))"

definition toggleRecording :: "environment \<Rightarrow> bool \<Rightarrow> interview_state \<Rightarrow> interview_state \<times> effect list" where
  "toggleRecording env start_ok s =
     (if currentQuestionIndex s \<in> answeredOnce s then (s, [])
      else if isRecording s then stopSTT s else startSTT env start_ok s)"

subsection \<open>Answers and navigation\<close>

text \<open>The text made of the two transcripts, as \<open>handleNext\<close> and the text area compute it.\<close>

definition effective_text :: "interview_state \<Rightarrow> jsstring" where
  "effective_text s =
     trim (transcript s @
           (if interim s \<noteq> [] then (if transcript s \<noteq> [] then js '' '' else []) @ interim s
            else []))"

definition textarea_value :: "interview_state \<Rightarrow> jsstring" where
  "textarea_value s = (if effective_text s \<noteq> [] then effective_text s else currentAnswer s)"

text \<open>
  \<open>handleNext\<close>. The test \<open>currentQuestionIndex < questions.length - 1\<close> is on integers:
  for an empty list the right-hand side is -1.
\<close>

definition handleNext :: "interview_state \<Rightarrow> interview_state \<times> effect list" where
  "handleNext s =
     (let finalAnswer = effective_text s;
          newAnswer = \<lparr>question = at_index (questions s) (currentQuestionIndex s),
                       answer = (if finalAnswer \<noteq> [] then finalAnswer else currentAnswer s),
                       qtype = (if currentQuestionIndex s < COUNT_ROLE then Role else Resume)\<rparr>;
          updatedAnswers = answers s @ [newAnswer];
          s1 = s\<lparr>answers := updatedAnswers\<rparr>
      in if int (currentQuestionIndex s) < int (length (questions s)) - 1
         then (s1\<lparr>currentQuestionIndex := currentQuestionIndex s + 1,
                  isRecording := False, transcript := [], interim := [],
                  answeredOnce := insert (currentQuestionIndex s) (answeredOnce s)\<rparr>, [])
         else (s1, [CallOnNext updatedAnswers]))"

text \<open>
  \<open>handlePrevious\<close>. \<open>answers[i]?.answer || ""\<close> is the answer text of the entry at
  \<open>i\<close>, and the empty string when there is no such entry.
\<close>

definition handlePrevious :: "interview_state \<Rightarrow> interview_state" where
  "handlePrevious s =
     (if currentQuestionIndex s > 0
      then s\<lparr>currentQuestionIndex := currentQuestionIndex s - 1,
             currentAnswer := (case at_index (answers s) (currentQuestionIndex s - 1) of
                                 None \<Rightarrow> [] | Some a \<Rightarrow> answer a)\<rparr>
      else s)"

subsection \<open>Events\<close>

text \<open>
  Everything that can happen to the mounted component after the questions are loaded:
  the three buttons, the end of the microphone request, and the callbacks of the
  connection, the recorder and the recognition engine. The recorder's data callback only
  forwards audio to the connection and touches no state; it is left out.
\<close>

datatype event =
    ClickRecord bool
  | ClickNext
  | ClickPrevious
  | MediaSettled media_outcome
  | SocketOpened
  | SocketMessage ws_data
  | SocketClosed
  | RecorderError
  | RecResult sr_event
  | RecError "jsstring option"
  | RecEnd

fun step :: "environment \<Rightarrow> interview_state \<Rightarrow> event \<Rightarrow> interview_state \<times> effect list" where
  "step env s (ClickRecord start_ok) = toggleRecording env start_ok s"
| "step env s ClickNext = handleNext s"
| "step env s ClickPrevious = (handlePrevious s, [])"
| "step env s (MediaSettled outcome) = startWSRecorder_resume outcome s"
| "step env s SocketOpened = ws_onopen s"
| "step env s (SocketMessage data) = (ws_onmessage data s, [])"
| "step env s SocketClosed = (ws_onclose s, [])"
| "step env s RecorderError = mr_onerror s"
| "step env s (RecResult ev) = (rec_onresult ev s, [])"
| "step env s (RecError error) = rec_onerror error s"
| "step env s RecEnd = (rec_onend s, [])"

fun run :: "environment \<Rightarrow> interview_state \<Rightarrow> event list \<Rightarrow> interview_state \<times> effect list" where
  "run env s [] = (s, [])"
| "run env s (e # es) =
     (case step env s e of (s1, fx1) \<Rightarrow>
        (case run env s1 es of (s2, fx2) \<Rightarrow> (s2, fx1 @ fx2)))"

subsection \<open>Notions the properties are stated with\<close>

text \<open>The answer sequences handed to the completion callback, in the order of the calls.\<close>

fun onNext_calls :: "effect list \<Rightarrow> answer list list" where
  "onNext_calls [] = []"
| "onNext_calls (CallOnNext as # fx) = as # onNext_calls fx"
| "onNext_calls (_ # fx) = onNext_calls fx"

text \<open>
  The transport a start attempt sets going, read off what it does: the recognition engine
  is started, or the microphone is requested for the relay, or neither.
\<close>

datatype transport = NativeRecognition | SocketRelay

definition transport_started :: "effect list \<Rightarrow> transport option" where
  "transport_started fx =
     (if RecognitionStart \<in> set fx then Some NativeRecognition
      else if GetUserMedia \<in> set fx then Some SocketRelay
      else None)"

text \<open>
  The selection policy in the words of the specification, as a function of whether the
  native capability is present and whether the context is secure; \<open>None\<close> is the abort.
\<close>

definition select_transport :: "bool \<Rightarrow> bool \<Rightarrow> transport option" where
  "select_transport present secure =
     (if \<not> secure then None
      else if present then Some NativeRecognition
      else Some SocketRelay)"

text \<open>
  The results an event brings, and the fragments among them: the first transcript of
  every finalized result, and of every result that is not yet finalized.
\<close>

definition new_results :: "sr_event \<Rightarrow> sr_result list" where
  "new_results ev = drop (resultIndex ev) (results ev)"

definition finalized_fragments :: "sr_event \<Rightarrow> jsstring list" where
  "finalized_fragments ev = concat (map (\<lambda>r. take 1 (alternatives r)) (filter isFinal (new_results ev)))"

definition pending_fragments :: "sr_event \<Rightarrow> jsstring list" where
  "pending_fragments ev =
     concat (map (\<lambda>r. take 1 (alternatives r)) (filter (\<lambda>r. \<not> isFinal r) (new_results ev)))"

definition final_text :: "sr_event \<Rightarrow> jsstring" where
  "final_text ev = concat (finalized_fragments ev)"

definition interim_text :: "sr_event \<Rightarrow> jsstring" where
  "interim_text ev = concat (pending_fragments ev)"

text \<open>Every result the event brings has a transcript.\<close>

definition well_formed :: "sr_event \<Rightarrow> bool" where
  "well_formed ev = list_all (\<lambda>r. alternatives r \<noteq> []) (new_results ev)"

text \<open>Joining with single spaces, as \<open>Array.prototype.join(" ")\<close> does.\<close>

fun space_join :: "jsstring list \<Rightarrow> jsstring" where
  "space_join [] = []"
| "space_join [x] = x"
| "space_join (x # y # ys) = x @ js '' '' @ space_join (y # ys)"

text \<open>The recognition events of one recording, handled in their order of arrival.\<close>

definition on_results :: "sr_event list \<Rightarrow> interview_state \<Rightarrow> interview_state" where
  "on_results evs s = fold rec_onresult evs s"

section \<open>Properties of the string operations\<close>

lemma includes_str_iff: "includes_str s sub \<longleftrightarrow> (\<exists>p q. s = p @ sub @ q)"
proof (induction s)
  case Nil
  then show ?case by auto
next
  case (Cons c cs)
  have "take (length sub) (c # cs) = sub \<longleftrightarrow> (\<exists>q. c # cs = sub @ q)"
    by (metis append_eq_conv_conj append_take_drop_id)
  moreover have "(\<exists>p q. c # cs = p @ sub @ q) \<longleftrightarrow>
      (\<exists>q. c # cs = sub @ q) \<or> (\<exists>p q. cs = p @ sub @ q)"
  proof
    assume "\<exists>p q. c # cs = p @ sub @ q"
    then obtain p q where pq: "c # cs = p @ sub @ q" by blast
    show "(\<exists>q. c # cs = sub @ q) \<or> (\<exists>p q. cs = p @ sub @ q)"
    proof (cases p)
      case Nil
      with pq show ?thesis by auto
    next
      case (Cons a p')
      with pq have "cs = p' @ sub @ q" by simp
      then show ?thesis by blast
    qed
  next
    assume "(\<exists>q. c # cs = sub @ q) \<or> (\<exists>p q. cs = p @ sub @ q)"
    then show "\<exists>p q. c # cs = p @ sub @ q"
    proof
      assume "\<exists>q. c # cs = sub @ q"
      then obtain q where "c # cs = [] @ sub @ q" by auto
      then show ?thesis by blast
    next
      assume "\<exists>p q. cs = p @ sub @ q"
      then obtain p q where "c # cs = (c # p) @ sub @ q" by auto
      then show ?thesis by blast
    qed
  qed
  ultimately show ?case using Cons.IH by simp
qed

lemma trim_Nil [simp]: "trim [] = []"
  by (simp add: trim_def)

section \<open>The session identifier\<close>

lemma unat_nibble: "unat (w :: 4 word) < 16"
  using unsigned_less [of w] by simp

lemma below_16: "list_all P [0..<16] \<Longrightarrow> n < 16 \<Longrightarrow> P n"
  by (simp add: list_all_iff)

lemma hex_digits_table: "list_all (\<lambda>n. is_hex (hex_digit n)) [0..<16]"
  by code_simp

lemma variant_table:
  "list_all (\<lambda>n. hex_digit (unat ((of_nat n AND 0x3) OR 0x8 :: 4 word)) \<in> {0x38, 0x39, 0x61, 0x62})
     [0..<16]"
  by code_simp

lemma is_hex_nibble [simp]: "is_hex (hex_digit (unat (w :: 4 word)))"
  by (rule below_16 [OF hex_digits_table unat_nibble])

lemma variant_digit:
  "hex_digit (unat ((r AND 0x3) OR 0x8 :: 4 word)) \<in> {0x38, 0x39, 0x61, 0x62}"
  using below_16 [OF variant_table unat_nibble [of r]] by simp

text \<open>
  Claim C9. Whatever the random draws are, the identifier that \<open>generateUUID\<close> returns has
  36 code units in the grouped layout 8-4-4-4-12 of hexadecimal digits with hyphens
  between the groups, its version digit is \<open>4\<close> and its variant digit is one of \<open>8\<close>,
  \<open>9\<close>, \<open>a\<close>, \<open>b\<close>.
\<close>

theorem generateUUID_canonical: "canonical_uuid_v4 (generateUUID rnd)"
  using variant_digit
  by (simp add: generateUUID_def js_def replacer_def toString16_def canonical_uuid_v4_def
      hex_group_def)

text \<open>
  Claim C9, at the draws 3, 10, 1, 8, ... (the \<open>k\<close>-th draw is \<open>7 k + 3\<close> on 4 bits):
  the identifier is \<open>3a18f6d4-b290-47e5-83a1-8f6d4b2907e5\<close>, which has the layout.
\<close>

theorem generateUUID_canonical_witness:
  "generateUUID (\<lambda>k. of_nat (7 * k + 3)) = js ''3a18f6d4-b290-47e5-83a1-8f6d4b2907e5'' \<and>
   canonical_uuid_v4 (js ''3a18f6d4-b290-47e5-83a1-8f6d4b2907e5'')"
  using generateUUID_canonical [of "\<lambda>k. of_nat (7 * k + 3)"]
  by (simp add: generateUUID_def js_def replacer_def toString16_def hex_digit_def)

section \<open>The upload step\<close>

lemma is_pdf_iff:
  "is_pdf f \<longleftrightarrow> (\<exists>t. file_type f = Some t \<and> includes_str t (js ''pdf''))"
  by (cases "file_type f") (auto simp: is_pdf_def js_def)

text \<open>
  Claim C8. A file whose declared type is absent, empty or does not contain \<open>pdf\<close> is
  rejected: the handler gives the one error notice "Invalid file type", sends no
  extraction request and returns the state it was given, whatever the state, the random
  draws and the behaviour of the backend are.
\<close>

theorem handleFileUpload_rejects_non_pdf:
  assumes "\<forall>t. file_type f = Some t \<longrightarrow> \<not> includes_str t (js ''pdf'')"
  shows "handleFileUpload rnd outcome s f =
           (s, [UploadToast (Toast (js ''Invalid file type'') (Some (js ''Please upload a PDF file'')) True)])
         \<and> network_calls (snd (handleFileUpload rnd outcome s f)) = []"
proof -
  from assms have "\<not> is_pdf f" by (auto simp: is_pdf_iff)
  then show ?thesis
    by (simp add: handleFileUpload_def handleFileUpload_begin_def network_calls_def)
qed

text \<open>
  Claim C8, on a Word document, a file with an empty type and a file without a type, each
  uploaded while an earlier resume is stored: the state stays as it was and nothing is
  sent.
\<close>

theorem handleFileUpload_rejects_non_pdf_witness:
  "handleFileUpload (\<lambda>k. 5) (Resolved (js ''12''))
      \<lparr>resumeFile = None, resumeContent = js ''Indexed 3 chunks for session s'',
       isProcessing = False, sessionId = js ''s''\<rparr>
      \<lparr>file_name = js ''cv.docx'', file_type = Some (js ''application/msword'')\<rparr>
    = (\<lparr>resumeFile = None, resumeContent = js ''Indexed 3 chunks for session s'',
        isProcessing = False, sessionId = js ''s''\<rparr>,
       [UploadToast (Toast (js ''Invalid file type'') (Some (js ''Please upload a PDF file'')) True)]) \<and>
   handleFileUpload (\<lambda>k. 5) (Resolved (js ''12'')) upload_init
      \<lparr>file_name = js ''cv'', file_type = Some []\<rparr>
    = (upload_init,
       [UploadToast (Toast (js ''Invalid file type'') (Some (js ''Please upload a PDF file'')) True)]) \<and>
   handleFileUpload (\<lambda>k. 5) (Resolved (js ''12'')) upload_init
      \<lparr>file_name = js ''cv.PDF'', file_type = None\<rparr>
    = (upload_init,
       [UploadToast (Toast (js ''Invalid file type'') (Some (js ''Please upload a PDF file'')) True)])"
proof -
  have a: "\<forall>t. file_type \<lparr>file_name = js ''cv.docx'', file_type = Some (js ''application/msword'')\<rparr> = Some t
             \<longrightarrow> \<not> includes_str t (js ''pdf'')"
    by (simp add: js_def)
  have b: "\<forall>t. file_type \<lparr>file_name = js ''cv'', file_type = Some []\<rparr> = Some t
             \<longrightarrow> \<not> includes_str t (js ''pdf'')"
    by (simp add: js_def)
  have c: "\<forall>t. file_type \<lparr>file_name = js ''cv.PDF'', file_type = None\<rparr> = Some t
             \<longrightarrow> \<not> includes_str t (js ''pdf'')"
    by simp
  show ?thesis
    using conjunct1 [OF handleFileUpload_rejects_non_pdf [OF a]]
      conjunct1 [OF handleFileUpload_rejects_non_pdf [OF b]]
      conjunct1 [OF handleFileUpload_rejects_non_pdf [OF c]]
    by blast
qed

text \<open>
  Claim C5 as it is stated fails. A PDF is uploaded on the fresh component and the
  extraction call fails: the stored file is then the uploaded file, not \<open>null\<close> as
  before, and the session identifier is the generated one, not the empty string.
\<close>

theorem upload_failure_counterexample:
  "resumeFile (fst (handleFileUpload (\<lambda>k. 0) Rejected upload_init
       \<lparr>file_name = js ''cv.pdf'', file_type = Some (js ''application/pdf'')\<rparr>)) \<noteq> resumeFile upload_init
   \<and> sessionId (fst (handleFileUpload (\<lambda>k. 0) Rejected upload_init
       \<lparr>file_name = js ''cv.pdf'', file_type = Some (js ''application/pdf'')\<rparr>)) \<noteq> sessionId upload_init"
  by (simp add: handleFileUpload_def handleFileUpload_begin_def handleFileUpload_settle_def
      is_pdf_def upload_init_def js_def generateUUID_def replacer_def toString16_def Let_def)

text \<open>
  Claim C5, amended. When the extraction call fails for a PDF, the request has been sent,
  the one error notice "Error processing resume" is given, the processing flag is off and
  the status text is the one from before the upload; the stored file and the session
  identifier are those of the failed attempt. The same file can be uploaded again, and
  the new attempt ends exactly as it would have from the state before the failed one.
\<close>

theorem upload_failure_leaves_retryable:
  assumes "is_pdf f"
  shows "handleFileUpload rnd Rejected s f =
          (s\<lparr>resumeFile := Some f, isProcessing := False, sessionId := generateUUID rnd\<rparr>,
           [ExtractCall (generateUUID rnd) f,
            UploadToast (Toast (js ''Error processing resume'') (Some (js ''Please try uploading again'')) True)])
        \<and> resumeContent (fst (handleFileUpload rnd Rejected s f)) = resumeContent s
        \<and> handleFileUpload rnd' outcome' (fst (handleFileUpload rnd Rejected s f)) f
            = handleFileUpload rnd' outcome' s f"
  using assms
  by (cases outcome')
     (simp_all add: handleFileUpload_def handleFileUpload_begin_def handleFileUpload_settle_def Let_def)

text \<open>
  Claim C5, amended, on \<open>cv.pdf\<close> of type \<open>application/pdf\<close>, uploaded on the fresh
  component: after the failure the status text is still empty, and a second attempt that
  succeeds with 12 chunks ends as a first attempt would.
\<close>

theorem upload_failure_leaves_retryable_witness:
  "is_pdf \<lparr>file_name = js ''cv.pdf'', file_type = Some (js ''application/pdf'')\<rparr> \<and>
   resumeContent (fst (handleFileUpload (\<lambda>k. 0) Rejected upload_init
      \<lparr>file_name = js ''cv.pdf'', file_type = Some (js ''application/pdf'')\<rparr>)) = [] \<and>
   handleFileUpload (\<lambda>k. 9) (Resolved (js ''12''))
      (fst (handleFileUpload (\<lambda>k. 0) Rejected upload_init
         \<lparr>file_name = js ''cv.pdf'', file_type = Some (js ''application/pdf'')\<rparr>))
      \<lparr>file_name = js ''cv.pdf'', file_type = Some (js ''application/pdf'')\<rparr>
    = handleFileUpload (\<lambda>k. 9) (Resolved (js ''12'')) upload_init
      \<lparr>file_name = js ''cv.pdf'', file_type = Some (js ''application/pdf'')\<rparr>"
proof -
  have p: "is_pdf \<lparr>file_name = js ''cv.pdf'', file_type = Some (js ''application/pdf'')\<rparr>"
    by (simp add: is_pdf_def js_def)
  note th = upload_failure_leaves_retryable [OF p, of "\<lambda>k. 0" upload_init "\<lambda>k. 9" "Resolved (js ''12'')"]
  have a: "resumeContent (fst (handleFileUpload (\<lambda>k. 0) Rejected upload_init
      \<lparr>file_name = js ''cv.pdf'', file_type = Some (js ''application/pdf'')\<rparr>)) = []"
    using conjunct1 [OF conjunct2 [OF th]] by (simp add: upload_init_def)
  show ?thesis
    using p a conjunct2 [OF conjunct2 [OF th]] by blast
qed

section \<open>The interview step\<close>

lemmas handler_defs =
  toggleRecording_def startSTT_def stopSTT_def stopWSRecorder_def startWSRecorder_def
  startWSRecorder_resume_def ws_onopen_def ws_onmessage_def ws_onclose_def mr_onerror_def
  rec_onresult_def rec_onerror_def rec_onend_def handleNext_def handlePrevious_def

lemmas eval_defs =
  handler_defs effective_text_def textarea_value_def at_index_def COUNT_ROLE_def
  interview_init_def Let_def js_def trim_def is_ws_def

subsection \<open>Transport selection\<close>

text \<open>
  Claim C6. What \<open>startSTT\<close> sets going depends on the page only through the pair
  (native capability, secure context), as the selection policy says: with the capability
  and a secure context the recognition engine is started; without the capability and
  with a secure context \<open>startSTT\<close> is \<open>startWSRecorder\<close>, which requests the microphone
  for the relay (unless the relay is flagged as in use, when it returns at once); in an
  insecure context, with or without the capability, the state is returned as it was,
  nothing is started and the one notice "Insecure context" is given as an error.
\<close>

theorem startSTT_transport_selection:
  "(\<not> isUsingWs s \<longrightarrow>
      transport_started (snd (startSTT env start_ok s))
        = select_transport (recognitionCtor env) (isSecureContextOk env)) \<and>
   (isSecureContextOk env \<and> recognitionCtor env \<longrightarrow>
      transport_started (snd (startSTT env start_ok s)) = Some NativeRecognition) \<and>
   (isSecureContextOk env \<and> \<not> recognitionCtor env \<longrightarrow>
      startSTT env start_ok s = startWSRecorder s) \<and>
   (\<not> isSecureContextOk env \<longrightarrow>
      fst (startSTT env start_ok s) = s \<and>
      transport_started (snd (startSTT env start_ok s)) = None \<and>
      (\<exists>d. snd (startSTT env start_ok s) = [ShowToast (Toast (js ''Insecure context'') d True)]))"
  by (simp add: startSTT_def startWSRecorder_def transport_started_def select_transport_def Let_def)

text \<open>
  Claim C6, on the freshly mounted component with two questions, for the four pages:
  the engine is started, the microphone is requested, and twice nothing is started and
  the state is unchanged.
\<close>

theorem startSTT_transport_selection_witness:
  "transport_started (snd (startSTT \<lparr>recognitionCtor = True, isSecureContextOk = True\<rparr> True
       (interview_init [js ''Q1'', js ''Q2'']))) = Some NativeRecognition \<and>
   startSTT \<lparr>recognitionCtor = False, isSecureContextOk = True\<rparr> True (interview_init [js ''Q1'', js ''Q2''])
     = (interview_init [js ''Q1'', js ''Q2''], [GetUserMedia]) \<and>
   fst (startSTT \<lparr>recognitionCtor = True, isSecureContextOk = False\<rparr> True
       (interview_init [js ''Q1'', js ''Q2''])) = interview_init [js ''Q1'', js ''Q2''] \<and>
   transport_started (snd (startSTT \<lparr>recognitionCtor = True, isSecureContextOk = False\<rparr> True
       (interview_init [js ''Q1'', js ''Q2'']))) = None \<and>
   fst (startSTT \<lparr>recognitionCtor = False, isSecureContextOk = False\<rparr> True
       (interview_init [js ''Q1'', js ''Q2''])) = interview_init [js ''Q1'', js ''Q2''] \<and>
   transport_started (snd (startSTT \<lparr>recognitionCtor = False, isSecureContextOk = False\<rparr> True
       (interview_init [js ''Q1'', js ''Q2'']))) = None"
  using
    startSTT_transport_selection [of "interview_init [js ''Q1'', js ''Q2'']"
      "\<lparr>recognitionCtor = True, isSecureContextOk = True\<rparr>" True]
    startSTT_transport_selection [of "interview_init [js ''Q1'', js ''Q2'']"
      "\<lparr>recognitionCtor = False, isSecureContextOk = True\<rparr>" True]
    startSTT_transport_selection [of "interview_init [js ''Q1'', js ''Q2'']"
      "\<lparr>recognitionCtor = True, isSecureContextOk = False\<rparr>" True]
    startSTT_transport_selection [of "interview_init [js ''Q1'', js ''Q2'']"
      "\<lparr>recognitionCtor = False, isSecureContextOk = False\<rparr>" True]
  by (simp add: startWSRecorder_def interview_init_def select_transport_def)

subsection \<open>The marker of recorded questions\<close>

lemma answeredOnce_step:
  "i \<in> answeredOnce s \<Longrightarrow> i \<in> answeredOnce (fst (step env s e))"
  by (cases e) (auto simp: handler_defs Let_def split: option.splits prod.splits media_outcome.splits)

lemma answeredOnce_run:
  "i \<in> answeredOnce s \<Longrightarrow> i \<in> answeredOnce (fst (run env s evs))"
proof (induction evs arbitrary: s)
  case Nil
  then show ?case by simp
next
  case (Cons e evs)
  obtain s1 fx1 where st: "step env s e = (s1, fx1)" by (cases "step env s e")
  obtain s2 fx2 where rn: "run env s1 evs = (s2, fx2)" by (cases "run env s1 evs")
  from Cons.prems st have "i \<in> answeredOnce s1"
    using answeredOnce_step [of i s env e] by simp
  then have "i \<in> answeredOnce (fst (run env s1 evs))" by (rule Cons.IH)
  with st rn show ?case by simp
qed

text \<open>
  Claim C7 as it is stated fails in its last clause: an index can be recorded more than
  once. On the first of two questions a recording is started and brings \<open>one\<close>; the
  engine ends by itself, which sets no mark; the record control then starts a second
  recording on the same index, which brings \<open>two\<close>. The engine has been started twice
  on index 0, and the transcript is that of the second recording.
\<close>

theorem recorded_twice_counterexample:
  "count_list (snd (run \<lparr>recognitionCtor = True, isSecureContextOk = True\<rparr>
      (interview_init [js ''Q1'', js ''Q2''])
      [ClickRecord True,
       RecResult \<lparr>resultIndex = 0, results = [\<lparr>isFinal = True, alternatives = [js ''one'']\<rparr>]\<rparr>,
       RecEnd,
       ClickRecord True,
       RecResult \<lparr>resultIndex = 0, results = [\<lparr>isFinal = True, alternatives = [js ''two'']\<rparr>]\<rparr>]))
     RecognitionStart = 2 \<and>
   currentQuestionIndex (fst (run \<lparr>recognitionCtor = True, isSecureContextOk = True\<rparr>
      (interview_init [js ''Q1'', js ''Q2''])
      [ClickRecord True,
       RecResult \<lparr>resultIndex = 0, results = [\<lparr>isFinal = True, alternatives = [js ''one'']\<rparr>]\<rparr>,
       RecEnd,
       ClickRecord True,
       RecResult \<lparr>resultIndex = 0, results = [\<lparr>isFinal = True, alternatives = [js ''two'']\<rparr>]\<rparr>])) = 0 \<and>
   transcript (fst (run \<lparr>recognitionCtor = True, isSecureContextOk = True\<rparr>
      (interview_init [js ''Q1'', js ''Q2''])
      [ClickRecord True,
       RecResult \<lparr>resultIndex = 0, results = [\<lparr>isFinal = True, alternatives = [js ''one'']\<rparr>]\<rparr>,
       RecEnd,
       ClickRecord True,
       RecResult \<lparr>resultIndex = 0, results = [\<lparr>isFinal = True, alternatives = [js ''two'']\<rparr>]\<rparr>])) = js ''two''"
  by (simp add: eval_defs)

text \<open>
  Claim C7, amended. Stopping a recording marks the current question index. Once an
  index is marked, it stays marked whatever happens next (clicks, engine, connection and
  recorder callbacks), and whenever the component is on that index the record control
  does nothing: the state is returned as it is and nothing is started or stopped. An
  index is not limited to one recording: a recording that ends by itself leaves no mark.
\<close>

theorem recorded_index_toggle_noop:
  "currentQuestionIndex s \<in> answeredOnce (fst (stopSTT s)) \<and>
   (i \<in> answeredOnce s \<and> currentQuestionIndex (fst (run env s evs)) = i \<longrightarrow>
      toggleRecording env start_ok (fst (run env s evs)) = (fst (run env s evs), []))"
proof
  show "currentQuestionIndex s \<in> answeredOnce (fst (stopSTT s))"
    by (simp add: stopSTT_def stopWSRecorder_def)
next
  show "i \<in> answeredOnce s \<and> currentQuestionIndex (fst (run env s evs)) = i \<longrightarrow>
      toggleRecording env start_ok (fst (run env s evs)) = (fst (run env s evs), [])"
    using answeredOnce_run [of i s env evs] by (auto simp: toggleRecording_def)
qed

text \<open>
  Claim C7, on two questions: a recording on the first question is started and stopped,
  then the user goes to the second question, the engine reports its end, and the user
  comes back. The first question is marked and the record control does nothing there.
\<close>

theorem recorded_index_toggle_noop_witness:
  "0 \<in> answeredOnce (fst (run \<lparr>recognitionCtor = True, isSecureContextOk = True\<rparr>
          (interview_init [js ''Q1'', js ''Q2'']) [ClickRecord True, ClickRecord True])) \<and>
   currentQuestionIndex (fst (run \<lparr>recognitionCtor = True, isSecureContextOk = True\<rparr>
      (fst (run \<lparr>recognitionCtor = True, isSecureContextOk = True\<rparr>
          (interview_init [js ''Q1'', js ''Q2'']) [ClickRecord True, ClickRecord True]))
      [ClickNext, RecEnd, ClickPrevious])) = 0 \<and>
   toggleRecording \<lparr>recognitionCtor = True, isSecureContextOk = True\<rparr> True
     (fst (run \<lparr>recognitionCtor = True, isSecureContextOk = True\<rparr>
       (fst (run \<lparr>recognitionCtor = True, isSecureContextOk = True\<rparr>
          (interview_init [js ''Q1'', js ''Q2'']) [ClickRecord True, ClickRecord True]))
       [ClickNext, RecEnd, ClickPrevious]))
   = (fst (run \<lparr>recognitionCtor = True, isSecureContextOk = True\<rparr>
       (fst (run \<lparr>recognitionCtor = True, isSecureContextOk = True\<rparr>
          (interview_init [js ''Q1'', js ''Q2'']) [ClickRecord True, ClickRecord True]))
       [ClickNext, RecEnd, ClickPrevious]), [])"
proof -
  let ?env = "\<lparr>recognitionCtor = True, isSecureContextOk = True\<rparr>"
  let ?s = "fst (run ?env (interview_init [js ''Q1'', js ''Q2'']) [ClickRecord True, ClickRecord True])"
  let ?evs = "[ClickNext, RecEnd, ClickPrevious]"
  have m: "0 \<in> answeredOnce ?s" by (simp add: eval_defs)
  have c: "currentQuestionIndex (fst (run ?env ?s ?evs)) = 0" by (simp add: eval_defs)
  from conjunct2 [OF recorded_index_toggle_noop [of ?s 0 ?env ?evs True]] m c
  have "toggleRecording ?env True (fst (run ?env ?s ?evs)) = (fst (run ?env ?s ?evs), [])"
    by blast
  with m c show ?thesis by blast
qed

subsection \<open>The socket relay\<close>

text \<open>
  Claim C10. Any message of the connection, whether its data is a string or a buffer,
  ends the recording state and clears the flag of the relay. The committed transcript
  becomes the data when it is a string and the empty string when it is not; it does not
  depend on the transcript there was, so the data replaces it and is not appended.
  Nothing else is done.
\<close>

theorem ws_onmessage_replaces_transcript:
  "\<not> isRecording (ws_onmessage d s) \<and> \<not> isUsingWs (ws_onmessage d s) \<and>
   transcript (ws_onmessage (TextData t) s) = t \<and>
   transcript (ws_onmessage (BinaryData b) s) = [] \<and>
   ws_onmessage d (s\<lparr>transcript := old\<rparr>) = ws_onmessage d s \<and>
   step env s (SocketMessage d) = (ws_onmessage d s, [])"
  by (simp add: ws_onmessage_def Let_def)

text \<open>
  Claim C10, during a relay recording whose transcript is \<open>old text\<close>: the message
  \<open>new\<close> leaves the transcript \<open>new\<close>, and a binary message leaves it empty.
\<close>

theorem ws_onmessage_replaces_transcript_witness:
  "transcript (ws_onmessage (TextData (js ''new''))
      ((interview_init [js ''Q1''])\<lparr>transcript := js ''old text'', isRecording := True, isUsingWs := True\<rparr>))
     = js ''new'' \<and>
   transcript (ws_onmessage (BinaryData [1, 2, 3])
      ((interview_init [js ''Q1''])\<lparr>transcript := js ''old text'', isRecording := True, isUsingWs := True\<rparr>))
     = [] \<and>
   \<not> isRecording (ws_onmessage (BinaryData [1, 2, 3])
      ((interview_init [js ''Q1''])\<lparr>transcript := js ''old text'', isRecording := True, isUsingWs := True\<rparr>))"
  using
    ws_onmessage_replaces_transcript [of "TextData (js ''new'')"
      "(interview_init [js ''Q1''])\<lparr>transcript := js ''old text'', isRecording := True, isUsingWs := True\<rparr>"
      "js ''new''"]
    ws_onmessage_replaces_transcript [of "BinaryData [1, 2, 3]"
      "(interview_init [js ''Q1''])\<lparr>transcript := js ''old text'', isRecording := True, isUsingWs := True\<rparr>"
      _ "[1, 2, 3]"]
  by blast

subsection \<open>Native recognition results\<close>

lemma collect_well_formed:
  "list_all (\<lambda>r. alternatives r \<noteq> []) rs \<Longrightarrow>
   collect rs f i =
     Some (f @ concat (concat (map (\<lambda>r. take 1 (alternatives r)) (filter isFinal rs))),
           i @ concat (concat (map (\<lambda>r. take 1 (alternatives r)) (filter (\<lambda>r. \<not> isFinal r) rs))))"
proof (induction rs arbitrary: f i)
  case Nil
  then show ?case by simp
next
  case (Cons r rs)
  then obtain t ts where "alternatives r = t # ts"
    by (cases "alternatives r") auto
  with Cons show ?case by simp
qed

lemma collect_new_results:
  assumes "well_formed ev"
  shows "collect (drop (resultIndex ev) (results ev)) [] [] = Some (final_text ev, interim_text ev)"
  using collect_well_formed [OF assms [unfolded well_formed_def], of "[]" "[]"]
  by (simp add: new_results_def final_text_def interim_text_def
      finalized_fragments_def pending_fragments_def)

lemma rec_onresult_well_formed:
  assumes "well_formed ev"
  shows "rec_onresult ev s =
     (if final_text ev \<noteq> []
      then s\<lparr>transcript := (if transcript s \<noteq> [] then transcript s @ js '' '' else []) @ trim (final_text ev),
             interim := trim (interim_text ev)\<rparr>
      else s\<lparr>interim := trim (interim_text ev)\<rparr>)"
  unfolding rec_onresult_def collect_new_results [OF assms]
  by (simp add: Let_def)

lemma space_join_snoc:
  "space_join (xs @ [t]) = (if xs = [] then t else space_join xs @ js '' '' @ t)"
  by (induction xs rule: space_join.induct) auto

lemma space_join_eq_Nil:
  "\<forall>x \<in> set xs. x \<noteq> [] \<Longrightarrow> space_join xs = [] \<longleftrightarrow> xs = []"
  by (induction xs rule: space_join.induct) auto

lemma on_results_snoc: "on_results (evs @ [ev]) s = rec_onresult ev (on_results evs s)"
  by (simp add: on_results_def)

lemma transcript_on_results:
  assumes "\<forall>ev \<in> set evs. well_formed ev"
      and "\<forall>ev \<in> set evs. final_text ev \<noteq> [] \<longrightarrow> trim (final_text ev) \<noteq> []"
      and "transcript s = []"
  shows "transcript (on_results evs s) =
           space_join (map (\<lambda>ev. trim (final_text ev)) (filter (\<lambda>ev. final_text ev \<noteq> []) evs))"
  using assms
proof (induction evs rule: rev_induct)
  case Nil
  then show ?case by (simp add: on_results_def)
next
  case (snoc ev evs)
  let ?texts = "map (\<lambda>ev. trim (final_text ev)) (filter (\<lambda>ev. final_text ev \<noteq> []) evs)"
  have IH: "transcript (on_results evs s) = space_join ?texts"
    using snoc by simp
  have wf: "well_formed ev" using snoc.prems by simp
  have ne: "\<forall>x \<in> set ?texts. x \<noteq> []" using snoc.prems by auto
  show ?case
  proof (cases "final_text ev = []")
    case True
    then show ?thesis
      using IH by (simp add: on_results_snoc rec_onresult_well_formed [OF wf])
  next
    case False
    then show ?thesis
      using IH space_join_eq_Nil [OF ne]
      by (simp add: on_results_snoc rec_onresult_well_formed [OF wf] space_join_snoc)
  qed
qed

lemma interim_on_results:
  assumes "\<forall>ev \<in> set evs. well_formed ev" and "evs \<noteq> []"
  shows "interim (on_results evs s) = trim (interim_text (last evs))"
proof -
  from assms(2) obtain es e where evs: "evs = es @ [e]"
    by (metis append_butlast_last_id)
  with assms(1) have "well_formed e" by simp
  then show ?thesis
    by (simp add: evs on_results_snoc rec_onresult_well_formed)
qed

text \<open>
  Claim C3 as it is stated fails: the committed transcript is not the space-joined
  sequence of the finalized fragments. An event that finalizes the two fragments \<open>a\<close>
  and \<open>b\<close> commits \<open>ab\<close>, not \<open>a b\<close>; and the events that finalize \<open>hello \<close>
  and then \<open> world\<close> commit \<open>hello world\<close>, each event's text being trimmed, where
  joining the fragments with a space gives three spaces between the words.
\<close>

theorem committed_transcript_counterexample:
  "transcript (on_results
      [\<lparr>resultIndex = 0, results = [\<lparr>isFinal = True, alternatives = [js ''a'']\<rparr>,
                                     \<lparr>isFinal = True, alternatives = [js ''b'']\<rparr>]\<rparr>]
      (interview_init []))
     \<noteq> space_join (concat (map finalized_fragments
      [\<lparr>resultIndex = 0, results = [\<lparr>isFinal = True, alternatives = [js ''a'']\<rparr>,
                                     \<lparr>isFinal = True, alternatives = [js ''b'']\<rparr>]\<rparr>])) \<and>
   transcript (on_results
      [\<lparr>resultIndex = 0, results = [\<lparr>isFinal = True, alternatives = [js ''hello '']\<rparr>]\<rparr>,
       \<lparr>resultIndex = 1, results = [\<lparr>isFinal = True, alternatives = [js ''hello '']\<rparr>,
                                     \<lparr>isFinal = True, alternatives = [js '' world'']\<rparr>]\<rparr>]
      (interview_init []))
     \<noteq> space_join (concat (map finalized_fragments
      [\<lparr>resultIndex = 0, results = [\<lparr>isFinal = True, alternatives = [js ''hello '']\<rparr>]\<rparr>,
       \<lparr>resultIndex = 1, results = [\<lparr>isFinal = True, alternatives = [js ''hello '']\<rparr>,
                                     \<lparr>isFinal = True, alternatives = [js '' world'']\<rparr>]\<rparr>]))"
  by (simp add: on_results_def rec_onresult_def interview_init_def finalized_fragments_def
      new_results_def js_def trim_def is_ws_def)

text \<open>
  Claim C3, amended. Take the result events of one recording (the transcript is empty
  when it starts), each result having a transcript, and call an event's final text the
  direct concatenation, without separator, of the fragments it finalizes from its result
  index on. If no event has a final text made of white space only, the committed
  transcript is the space-joined sequence, in arrival order, of the trimmed final texts
  of the events whose final text is not empty. After each event the interim transcript
  is the trimmed direct concatenation of the not yet finalized fragments of that event
  alone: it is replaced, not accumulated.
\<close>

theorem native_transcript_accumulation:
  assumes "\<forall>ev \<in> set evs. well_formed ev"
      and "\<forall>ev \<in> set evs. final_text ev \<noteq> [] \<longrightarrow> trim (final_text ev) \<noteq> []"
      and "transcript s = []"
  shows "transcript (on_results evs s) =
           space_join (map (\<lambda>ev. trim (final_text ev)) (filter (\<lambda>ev. final_text ev \<noteq> []) evs))
         \<and> (evs \<noteq> [] \<longrightarrow> interim (on_results evs s) = trim (interim_text (last evs)))"
  using transcript_on_results [OF assms] interim_on_results [OF assms(1)] by blast

text \<open>
  Claim C3, amended, on three events of a recording: \<open>hel\<close> not yet final; then
  \<open>hello\<close> final with \<open> wor\<close> not yet final; then, from index 1 on, \<open> world\<close>
  final. The committed transcript is \<open>hello world\<close> and the interim transcript is
  empty at the end.
\<close>

theorem native_transcript_accumulation_witness:
  "transcript (on_results
      [\<lparr>resultIndex = 0, results = [\<lparr>isFinal = False, alternatives = [js ''hel'']\<rparr>]\<rparr>,
       \<lparr>resultIndex = 0, results = [\<lparr>isFinal = True, alternatives = [js ''hello'']\<rparr>,
                                     \<lparr>isFinal = False, alternatives = [js '' wor'']\<rparr>]\<rparr>,
       \<lparr>resultIndex = 1, results = [\<lparr>isFinal = True, alternatives = [js ''hello'']\<rparr>,
                                     \<lparr>isFinal = True, alternatives = [js '' world'']\<rparr>]\<rparr>]
      (interview_init [js ''Q1''])) = js ''hello world'' \<and>
   interim (on_results
      [\<lparr>resultIndex = 0, results = [\<lparr>isFinal = False, alternatives = [js ''hel'']\<rparr>]\<rparr>,
       \<lparr>resultIndex = 0, results = [\<lparr>isFinal = True, alternatives = [js ''hello'']\<rparr>,
                                     \<lparr>isFinal = False, alternatives = [js '' wor'']\<rparr>]\<rparr>,
       \<lparr>resultIndex = 1, results = [\<lparr>isFinal = True, alternatives = [js ''hello'']\<rparr>,
                                     \<lparr>isFinal = True, alternatives = [js '' world'']\<rparr>]\<rparr>]
      (interview_init [js ''Q1''])) = []"
proof -
  let ?e1 = "\<lparr>resultIndex = 0, results = [\<lparr>isFinal = False, alternatives = [js ''hel'']\<rparr>]\<rparr>"
  let ?e2 = "\<lparr>resultIndex = 0, results = [\<lparr>isFinal = True, alternatives = [js ''hello'']\<rparr>,
                                     \<lparr>isFinal = False, alternatives = [js '' wor'']\<rparr>]\<rparr>"
  let ?e3 = "\<lparr>resultIndex = 1, results = [\<lparr>isFinal = True, alternatives = [js ''hello'']\<rparr>,
                                     \<lparr>isFinal = True, alternatives = [js '' world'']\<rparr>]\<rparr>"
  have wf: "\<forall>ev \<in> set [?e1, ?e2, ?e3]. well_formed ev"
    by (simp add: well_formed_def new_results_def)
  have nw: "\<forall>ev \<in> set [?e1, ?e2, ?e3]. final_text ev \<noteq> [] \<longrightarrow> trim (final_text ev) \<noteq> []"
    by code_simp
  have s0: "transcript (interview_init [js ''Q1'']) = []"
    by (simp add: interview_init_def)
  have committed: "space_join (map (\<lambda>ev. trim (final_text ev))
        (filter (\<lambda>ev. final_text ev \<noteq> []) [?e1, ?e2, ?e3])) = js ''hello world''"
    by code_simp
  have pending: "trim (interim_text (last [?e1, ?e2, ?e3])) = []"
    by code_simp
  have ne: "[?e1, ?e2, ?e3] \<noteq> []" by simp
  note th = native_transcript_accumulation [OF wf nw s0]
  have a: "transcript (on_results [?e1, ?e2, ?e3] (interview_init [js ''Q1''])) = js ''hello world''"
    by (rule trans [OF conjunct1 [OF th] committed])
  have b: "interim (on_results [?e1, ?e2, ?e3] (interview_init [js ''Q1''])) = []"
    by (rule trans [OF mp [OF conjunct2 [OF th] ne] pending])
  show ?thesis using a b by blast
qed


subsection \<open>Answers and navigation\<close>

lemma onNext_calls_append: "onNext_calls (fx1 @ fx2) = onNext_calls fx1 @ onNext_calls fx2"
  by (induction fx1 rule: onNext_calls.induct) auto

lemma step_frame:
  assumes "e \<noteq> ClickNext" and "e \<noteq> ClickPrevious"
  shows "answers (fst (step env s e)) = answers s \<and>
         currentQuestionIndex (fst (step env s e)) = currentQuestionIndex s \<and>
         questions (fst (step env s e)) = questions s \<and>
         onNext_calls (snd (step env s e)) = []"
  using assms
  by (cases e) (auto simp: handler_defs Let_def split: option.splits prod.splits media_outcome.splits)

lemma handleNext_calls:
  "onNext_calls (snd (handleNext s)) =
     (if int (currentQuestionIndex s) < int (length (questions s)) - 1 then []
      else [answers (fst (handleNext s))])"
  by (simp add: handleNext_def Let_def)

lemma handleNext_appends_one:
  "length (answers (fst (handleNext s))) = length (answers s) + 1 \<and>
   questions (fst (handleNext s)) = questions s"
  by (simp add: handleNext_def Let_def)

lemma handleNext_index:
  "currentQuestionIndex (fst (handleNext s)) =
     (if int (currentQuestionIndex s) < int (length (questions s)) - 1
      then currentQuestionIndex s + 1 else currentQuestionIndex s)"
  by (simp add: handleNext_def Let_def)

text \<open>
  Without a retreat the answer sequence is aligned with the questions: as long as the
  user never goes back, the first sequence the completion callback receives has one
  entry per question.
\<close>

lemma first_completion_without_retreat:
  assumes "ClickPrevious \<notin> set evs"
      and "length (answers s) = currentQuestionIndex s"
      and "currentQuestionIndex s < length (questions s)"
  shows "onNext_calls (snd (run env s evs)) = [] \<or>
         length (hd (onNext_calls (snd (run env s evs)))) = length (questions s)"
  using assms
proof (induction evs arbitrary: s)
  case Nil
  then show ?case by simp
next
  case (Cons e evs)
  obtain s1 fx1 where st: "step env s e = (s1, fx1)" by (cases "step env s e")
  obtain s2 fx2 where rn: "run env s1 evs = (s2, fx2)" by (cases "run env s1 evs")
  have calls: "onNext_calls (snd (run env s (e # evs))) = onNext_calls fx1 @ onNext_calls fx2"
    using st rn by (simp add: onNext_calls_append)
  from Cons.prems have e: "e \<noteq> ClickPrevious" and evs: "ClickPrevious \<notin> set evs" by auto
  show ?case
  proof (cases "e = ClickNext")
    case True
    with st have s1: "s1 = fst (handleNext s)" and fx1: "fx1 = snd (handleNext s)" by simp_all
    show ?thesis
    proof (cases "int (currentQuestionIndex s) < int (length (questions s)) - 1")
      case True
      then have "length (answers s1) = currentQuestionIndex s1"
        and "currentQuestionIndex s1 < length (questions s1)"
        using Cons.prems(2,3) handleNext_appends_one [of s] handleNext_index [of s] s1 by auto
      from Cons.IH [OF evs this] rn True show ?thesis
        using calls fx1 handleNext_calls [of s] handleNext_appends_one [of s] s1 by simp
    next
      case False
      then have "onNext_calls fx1 = [answers s1]"
        using fx1 s1 handleNext_calls [of s] by simp
      moreover have "length (answers s1) = length (questions s)"
        using False Cons.prems(2,3) handleNext_appends_one [of s] s1 by auto
      ultimately show ?thesis using calls by simp
    qed
  next
    case False
    from step_frame [OF False e, of env s] st
    have fr: "answers s1 = answers s" "currentQuestionIndex s1 = currentQuestionIndex s"
      "questions s1 = questions s" "onNext_calls fx1 = []" by simp_all
    from Cons.IH [OF evs, of s1] fr Cons.prems(2,3) rn show ?thesis
      using calls by simp
  qed
qed

text \<open>
  Claim C1 on the code. Two questions; the user records \<open>first\<close> for question 1,
  advances, retreats, advances again and advances past the last question. The completion
  callback is invoked once, and the sequence it receives has three entries for the two
  questions: \<open>handleNext\<close> appends an entry on every advance, also for a question that
  has one already.
\<close>

theorem completion_after_retreat_has_extra_answer:
  "onNext_calls (snd (run \<lparr>recognitionCtor = True, isSecureContextOk = True\<rparr>
          (interview_init [js ''Q1'', js ''Q2''])
          [ClickRecord True,
           RecResult \<lparr>resultIndex = 0, results = [\<lparr>isFinal = True, alternatives = [js ''first'']\<rparr>]\<rparr>,
           ClickRecord True, ClickNext, ClickPrevious, ClickNext, ClickNext]))
   = [[\<lparr>question = Some (js ''Q1''), answer = js ''first'', qtype = Role\<rparr>,
       \<lparr>question = Some (js ''Q1''), answer = js ''first'', qtype = Role\<rparr>,
       \<lparr>question = Some (js ''Q2''), answer = js ''first'', qtype = Role\<rparr>]]"
  by (simp add: eval_defs)






lemma handlePrevious_frame: "answers (handlePrevious s) = answers s"
  by (simp add: handlePrevious_def)

lemma effective_text_handlePrevious: "effective_text (handlePrevious s) = effective_text s"
  by (simp add: handlePrevious_def effective_text_def)

text \<open>
  When no transcript text is pending, a retreat shows the answer of the entry at the
  new index.
\<close>

lemma handlePrevious_restores:
  assumes "0 < currentQuestionIndex s"
      and "currentQuestionIndex s - 1 < length (answers s)"
      and "effective_text s = []"
  shows "currentQuestionIndex (handlePrevious s) = currentQuestionIndex s - 1 \<and>
         textarea_value (handlePrevious s) = answer (answers s ! (currentQuestionIndex s - 1))"
proof -
  have "textarea_value (handlePrevious s) = currentAnswer (handlePrevious s)"
    using assms(3) by (simp add: textarea_value_def effective_text_handlePrevious)
  moreover have "currentAnswer (handlePrevious s) = answer (answers s ! (currentQuestionIndex s - 1))"
    using assms(1,2) by (simp add: handlePrevious_def at_index_def)
  moreover have "currentQuestionIndex (handlePrevious s) = currentQuestionIndex s - 1"
    using assms(1) by (simp add: handlePrevious_def)
  ultimately show ?thesis by simp
qed

text \<open>
  Claim C4 on the code. Two questions; the user records \<open>first\<close> for question 1 and
  advances, records \<open>second\<close> for question 2 and retreats. The answer sequence still
  holds the one entry \<open>first\<close>, and the component is on question 1, but the text area
  shows \<open>second\<close>: \<open>handlePrevious\<close> leaves the transcript of question 2 in place, and
  the text area prefers the transcript to the restored answer.
\<close>

theorem retreat_shows_pending_transcript:
  "textarea_value (fst (run \<lparr>recognitionCtor = True, isSecureContextOk = True\<rparr>
          (interview_init [js ''Q1'', js ''Q2''])
          [ClickRecord True,
           RecResult \<lparr>resultIndex = 0, results = [\<lparr>isFinal = True, alternatives = [js ''first'']\<rparr>]\<rparr>,
           ClickRecord True, ClickNext,
           ClickRecord True,
           RecResult \<lparr>resultIndex = 0, results = [\<lparr>isFinal = True, alternatives = [js ''second'']\<rparr>]\<rparr>,
           ClickRecord True, ClickPrevious])) = js ''second'' \<and>
   map answer (answers (fst (run \<lparr>recognitionCtor = True, isSecureContextOk = True\<rparr>
          (interview_init [js ''Q1'', js ''Q2''])
          [ClickRecord True,
           RecResult \<lparr>resultIndex = 0, results = [\<lparr>isFinal = True, alternatives = [js ''first'']\<rparr>]\<rparr>,
           ClickRecord True, ClickNext,
           ClickRecord True,
           RecResult \<lparr>resultIndex = 0, results = [\<lparr>isFinal = True, alternatives = [js ''second'']\<rparr>]\<rparr>,
           ClickRecord True, ClickPrevious]))) = [js ''first''] \<and>
   currentQuestionIndex (fst (run \<lparr>recognitionCtor = True, isSecureContextOk = True\<rparr>
          (interview_init [js ''Q1'', js ''Q2''])
          [ClickRecord True,
           RecResult \<lparr>resultIndex = 0, results = [\<lparr>isFinal = True, alternatives = [js ''first'']\<rparr>]\<rparr>,
           ClickRecord True, ClickNext,
           ClickRecord True,
           RecResult \<lparr>resultIndex = 0, results = [\<lparr>isFinal = True, alternatives = [js ''second'']\<rparr>]\<rparr>,
           ClickRecord True, ClickPrevious])) = 0"
  by (simp add: eval_defs)


end
